theory Spec2Isabelle
  imports Complex_Main "HOL-Library.Word"
begin

section \<open>Scalars and vectors of the engine core\<close>

text \<open>
  \<^verbatim>\<open>ICameraSceneNode.h\<close> uses the core types \<^verbatim>\<open>f32\<close>, \<^verbatim>\<open>s32\<close> and
  \<^verbatim>\<open>core::vector3df\<close>, which it includes from other headers. A 32-bit signed
  identifier is a 32-bit word. An \<^verbatim>\<open>f32\<close> is read as the real number it denotes:
  rounding is not modelled, and the only literals of the header (\<^verbatim>\<open>0\<close> and
  \<^verbatim>\<open>1.0f\<close>) are exact. A \<^verbatim>\<open>vector3df\<close> is its three components, in the order
  of the constructor call \<^verbatim>\<open>core::vector3df(x, y, z)\<close>.
\<close>

type_synonym s32 = "32 word"

type_synonym f32 = real

datatype vector3df = vector3df (X: f32) (Y: f32) (Z: f32)

section \<open>The view frustrum structure\<close>

subsection \<open>Enumerations\<close>

text \<open>
  A C++ enumeration is a list of enumerators in declaration order, each with an optional
  initialiser. An enumerator with an initialiser has that value; one without has the
  value of its predecessor plus one, and zero when it is the first.
\<close>

fun enumerator_values :: "int \<Rightarrow> ('e \<times> int option) list \<Rightarrow> ('e \<times> int) list" where
  "enumerator_values nxt [] = []"
| "enumerator_values nxt ((e, Some v) # ds) = (e, v) # enumerator_values (v + 1) ds"
| "enumerator_values nxt ((e, None) # ds) = (e, nxt) # enumerator_values (nxt + 1) ds"

subsection \<open>\<^verbatim>\<open>SViewFrustrum::planes\<close> (lines 23 to 40)\<close>

datatype planes =
    CVA_FAR_PLANE
  | CVA_NEAR_PLANE
  | CVA_LEFT_PLANE
  | CVA_RIGHT_PLANE
  | CVA_BOTTOM_PLANE
  | CVA_TOP_PLANE
  | CVA_PLANE_COUNT

text \<open>The declaration as written: only \<^verbatim>\<open>CVA_FAR_PLANE = 0\<close> has an initialiser.\<close>

definition planes_declaration :: "(planes \<times> int option) list" where
  "planes_declaration =
     [(CVA_FAR_PLANE, Some 0),
      (CVA_NEAR_PLANE, None),
      (CVA_LEFT_PLANE, None),
      (CVA_RIGHT_PLANE, None),
      (CVA_BOTTOM_PLANE, None),
      (CVA_TOP_PLANE, None),
      (CVA_PLANE_COUNT, None)]"

text \<open>
  The integer an enumerator converts to. Every enumerator is in the declaration, so the
  second branch is never taken.
\<close>

definition planes_value :: "planes \<Rightarrow> int" where
  "planes_value e =
     (case map_of (enumerator_values 0 planes_declaration) e of
        Some v \<Rightarrow> v
      | None \<Rightarrow> - 1)"

subsection \<open>\<^verbatim>\<open>SViewFrustrum\<close> (lines 21 to 49)\<close>

text \<open>
  \<^verbatim>\<open>core::plane3dex<f32> planes[CVA_PLANE_COUNT]\<close> is an array whose size is part of
  its type. The plane and box types come from headers outside this file and stay type
  parameters.
\<close>

typedef 'plane plane_array =
  "{ps :: 'plane list. int (length ps) = planes_value CVA_PLANE_COUNT}"
proof
  show "replicate 6 undefined \<in> {ps :: 'plane list. int (length ps) = planes_value CVA_PLANE_COUNT}"
    by (simp add: planes_value_def planes_declaration_def)
qed

record ('plane, 'box) SViewFrustrum =
  planes :: "'plane plane_array"
  rightFarDown :: vector3df
  leftFarDown :: vector3df
  rightFarUp :: vector3df
  leftFarUp :: vector3df
  box :: 'box

text \<open>
  \<^verbatim>\<open>frustrum.planes[e]\<close>: the enumerator converts to an integer, which indexes the
  array. An index outside the array is undefined behaviour in C++ and \<open>None\<close> here.
\<close>

definition plane_at :: "'plane plane_array \<Rightarrow> planes \<Rightarrow> 'plane option" where
  "plane_at ps e =
     (let i = planes_value e
      in if 0 \<le> i \<and> i < int (length (Rep_plane_array ps))
         then Some (Rep_plane_array ps ! nat i)
         else None)"

text \<open>The six enumerators that name a plane, in declaration order.\<close>

definition plane_names :: "planes list" where
  "plane_names =
     [CVA_FAR_PLANE, CVA_NEAR_PLANE, CVA_LEFT_PLANE, CVA_RIGHT_PLANE,
      CVA_BOTTOM_PLANE, CVA_TOP_PLANE]"

section \<open>The camera scene node\<close>

subsection \<open>Constructor (lines 61 to 66)\<close>

text \<open>
  The constructor has three trailing default arguments, so a call gives none of
  position, rotation and scale, or a prefix of them.
\<close>

datatype ctor_arguments =
    Defaults
  | Position vector3df
  | PositionRotation vector3df vector3df
  | PositionRotationScale vector3df vector3df vector3df

fun position_argument :: "ctor_arguments \<Rightarrow> vector3df" where
  "position_argument Defaults = vector3df 0 0 0"
| "position_argument (Position p) = p"
| "position_argument (PositionRotation p r) = p"
| "position_argument (PositionRotationScale p r s) = p"

fun rotation_argument :: "ctor_arguments \<Rightarrow> vector3df" where
  "rotation_argument Defaults = vector3df 0 0 0"
| "rotation_argument (Position p) = vector3df 0 0 0"
| "rotation_argument (PositionRotation p r) = r"
| "rotation_argument (PositionRotationScale p r s) = r"

fun scale_argument :: "ctor_arguments \<Rightarrow> vector3df" where
  "scale_argument Defaults = vector3df 1 1 1"
| "scale_argument (Position p) = vector3df 1 1 1"
| "scale_argument (PositionRotation p r) = vector3df 1 1 1"
| "scale_argument (PositionRotationScale p r s) = s"

text \<open>
  The constructor body is empty and the class declares no data member: the object is
  what the base class constructor \<^verbatim>\<open>ISceneNode(parent, mgr, id, position, rotation,
  scale)\<close> builds. \<^verbatim>\<open>ISceneNode\<close> is declared in another header, so its constructor is
  a parameter, as are the types of the parent and manager pointers.
\<close>

definition ICameraSceneNode ::
  "('parent \<Rightarrow> 'mgr \<Rightarrow> s32 \<Rightarrow> vector3df \<Rightarrow> vector3df \<Rightarrow> vector3df \<Rightarrow> 'node) \<Rightarrow>
   'parent \<Rightarrow> 'mgr \<Rightarrow> s32 \<Rightarrow> ctor_arguments \<Rightarrow> 'node" where
  "ICameraSceneNode ISceneNode parent mgr ident args =
     ISceneNode parent mgr ident
       (position_argument args) (rotation_argument args) (scale_argument args)"

section \<open>Projection\<close>

subsection \<open>Homogeneous vectors and matrices\<close>

text \<open>
  Modelled from the spec: \<^verbatim>\<open>core::matrix4\<close> and the transformation of a point by it
  are declared outside \<^verbatim>\<open>ICameraSceneNode.h\<close>. Following sections 4.1 and 4.3 of the
  specification a matrix is its four rows, row 0 producing clip-space x, row 1 y, row 2
  (the Z row) z and row 3 w, and it is applied to a point extended by w = 1.
\<close>

datatype vector4 = vector4 (x4: f32) (y4: f32) (z4: f32) (w4: f32)

datatype matrix4 = matrix4 (row0: vector4) (row1: vector4) (row2: vector4) (row3: vector4)

definition dot4 :: "vector4 \<Rightarrow> vector4 \<Rightarrow> f32" where
  "dot4 a b = x4 a * x4 b + y4 a * y4 b + z4 a * z4 b + w4 a * w4 b"

definition homogeneous :: "vector3df \<Rightarrow> vector4" where
  "homogeneous p = vector4 (X p) (Y p) (Z p) 1"

definition transform :: "matrix4 \<Rightarrow> vector4 \<Rightarrow> vector4" where
  "transform m v = vector4 (dot4 (row0 m) v) (dot4 (row1 m) v) (dot4 (row2 m) v) (dot4 (row3 m) v)"

text \<open>
  Modelled from the spec: the perspective W-divide of section 4.1, which is outside
  \<^verbatim>\<open>ICameraSceneNode.h\<close>. A clip-space point with w = 0 has no image: the
  division is not carried out and the result is \<open>None\<close>.
\<close>

definition w_divide :: "vector4 \<Rightarrow> vector3df option" where
  "w_divide c =
     (if w4 c = 0 then None
      else Some (vector3df (x4 c / w4 c) (y4 c / w4 c) (z4 c / w4 c)))"

definition project :: "matrix4 \<Rightarrow> vector3df \<Rightarrow> vector3df option" where
  "project m p = w_divide (transform m (homogeneous p))"

subsection \<open>ProjectionBuilder\<close>

text \<open>
  Modelled from the spec: \<^verbatim>\<open>ProjectionBuilder.build\<close> (section 4.1), the builder the
  header names as \<^verbatim>\<open>core::matrix4::buildProjectionMatrixPerspectiveFovLH\<close>; its body
  is outside \<^verbatim>\<open>ICameraSceneNode.h\<close>. It is the classical left-handed field-of-view
  perspective matrix: x is scaled by \<open>cot (fov / 2) / aspect\<close>, y by \<open>cot (fov / 2)\<close>,
  clip-space w is the camera-space z (positive z extends into the screen), and the Z row
  is \<open>far / (far - near)\<close> times z minus \<open>near * far / (far - near)\<close>.
\<close>

definition build :: "f32 \<Rightarrow> f32 \<Rightarrow> f32 \<Rightarrow> f32 \<Rightarrow> matrix4" where
  "build fov aspect near far =
     (let h = cot (fov / 2);
          w = h / aspect
      in matrix4
           (vector4 w 0 0 0)
           (vector4 0 h 0 0)
           (vector4 0 0 (far / (far - near)) (- (near * far) / (far - near)))
           (vector4 0 0 1 0))"

text \<open>
  Modelled from the spec: the valid inputs of the builder (sections 3 and 4.1); the
  header states no range for them.
\<close>

definition valid_parameters :: "f32 \<Rightarrow> f32 \<Rightarrow> f32 \<Rightarrow> f32 \<Rightarrow> bool" where
  "valid_parameters fov aspect near far \<longleftrightarrow>
     0 < fov \<and> fov < pi \<and> 0 < aspect \<and> 0 < near \<and> near < far"

section \<open>Camera state\<close>

text \<open>
  Modelled from the spec: the class that implements the pure virtual methods of
  \<^verbatim>\<open>ICameraSceneNode\<close> (lines 76 to 139) is not in \<^verbatim>\<open>ICameraSceneNode.h\<close>. The
  state and its operations follow sections 3 and 4.2 of the specification and the
  comments of the header. The projection is explicit while a matrix set by
  \<^verbatim>\<open>setProjectionMatrix\<close> is held, and derived otherwise; the mode is not a field of
  its own. The matrix type and the builder of the derived projection are parameters.
\<close>

record 'matrix CameraState =
  position :: vector3df
  target :: vector3df
  upVector :: vector3df
  nearValue :: f32
  farValue :: f32
  aspectRatio :: f32
  fieldOfView :: f32
  explicitProjection :: "'matrix option"









definition getTarget :: "'matrix CameraState \<Rightarrow> vector3df" where
  "getTarget s = target s"

definition getUpVector :: "'matrix CameraState \<Rightarrow> vector3df" where
  "getUpVector s = upVector s"













subsection \<open>Sequences of calls\<close>





section \<open>Properties\<close>

subsection \<open>Plane enumeration\<close>

lemma planes_values:
  "enumerator_values 0 planes_declaration =
     [(CVA_FAR_PLANE, 0), (CVA_NEAR_PLANE, 1), (CVA_LEFT_PLANE, 2), (CVA_RIGHT_PLANE, 3),
      (CVA_BOTTOM_PLANE, 4), (CVA_TOP_PLANE, 5), (CVA_PLANE_COUNT, 6)]"
  by (simp add: planes_declaration_def)

lemma planes_value_simps:
  "planes_value CVA_FAR_PLANE = 0"
  "planes_value CVA_NEAR_PLANE = 1"
  "planes_value CVA_LEFT_PLANE = 2"
  "planes_value CVA_RIGHT_PLANE = 3"
  "planes_value CVA_BOTTOM_PLANE = 4"
  "planes_value CVA_TOP_PLANE = 5"
  "planes_value CVA_PLANE_COUNT = 6"
  by (simp_all add: planes_value_def planes_values)

lemma plane_array_length: "length (Rep_plane_array ps) = 6"
proof -
  have "int (length (Rep_plane_array ps)) = planes_value CVA_PLANE_COUNT"
    using Rep_plane_array [of ps] by simp
  then show ?thesis
    by (simp add: planes_value_simps)
qed

text \<open>
  C5. The frustrum holds exactly six planes, whatever its value; the enumerators are
  numbered far = 0, near = 1, left = 2, right = 3, bottom = 4, top = 5, and the plane
  count is 6; and the six plane names read the six slots of the array in that order.
\<close>

theorem planes_enumeration_order:
  "length (Rep_plane_array (planes (frustrum :: ('plane, 'box) SViewFrustrum))) = 6
   \<and> map planes_value plane_names = [0, 1, 2, 3, 4, 5]
   \<and> planes_value CVA_PLANE_COUNT = 6
   \<and> int (length plane_names) = planes_value CVA_PLANE_COUNT
   \<and> map (plane_at (planes frustrum)) plane_names
       = map Some (Rep_plane_array (planes frustrum))
   \<and> plane_at (planes frustrum) CVA_PLANE_COUNT = None"
proof -
  let ?ps = "Rep_plane_array (planes frustrum)"
  have len: "length ?ps = 6"
    by (rule plane_array_length)
  then obtain a b c d e f where ps: "?ps = [a, b, c, d, e, f]"
    by (auto simp: length_Suc_conv eval_nat_numeral)
  have "map (plane_at (planes frustrum)) plane_names = map Some ?ps"
    by (simp add: plane_names_def plane_at_def planes_value_simps ps)
  moreover have "plane_at (planes frustrum) CVA_PLANE_COUNT = None"
    by (simp add: plane_at_def planes_value_simps len)
  ultimately show ?thesis
    using len by (simp add: plane_names_def planes_value_simps)
qed

subsection \<open>Constructor defaults\<close>

text \<open>
  C10. With position, rotation and scale omitted the scene node is the one the base
  constructor builds from position (0,0,0), rotation (0,0,0) and scale (1,1,1); an
  omitted suffix takes the same defaults; and arguments that are given reach the base
  constructor unchanged, together with parent, manager and id.
\<close>

theorem constructor_defaults_forwarded:
  "ICameraSceneNode ISceneNode parent mgr ident Defaults
     = ISceneNode parent mgr ident (vector3df 0 0 0) (vector3df 0 0 0) (vector3df 1 1 1)
   \<and> ICameraSceneNode ISceneNode parent mgr ident (Position p)
     = ISceneNode parent mgr ident p (vector3df 0 0 0) (vector3df 1 1 1)
   \<and> ICameraSceneNode ISceneNode parent mgr ident (PositionRotation p r)
     = ISceneNode parent mgr ident p r (vector3df 1 1 1)
   \<and> ICameraSceneNode ISceneNode parent mgr ident (PositionRotationScale p r s)
     = ISceneNode parent mgr ident p r s"
  by (simp add: ICameraSceneNode_def)

subsection \<open>Perspective projection\<close>

lemma cot_half_fov_pos:
  assumes "0 < fov" and "fov < pi"
  shows "0 < cot (fov / 2)"
proof -
  have "0 < sin (fov / 2)"
    using assms by (intro sin_gt_zero) auto
  moreover have "0 < cos (fov / 2)"
    using assms by (intro cos_gt_zero_pi) auto
  ultimately show ?thesis
    by (simp add: cot_def)
qed

lemma clip_coordinates:
  "transform (build fov aspect near far) (homogeneous (vector3df x y z)) =
     vector4 (cot (fov / 2) / aspect * x) (cot (fov / 2) * y)
       (far / (far - near) * z - near * far / (far - near)) z"
  by (simp add: build_def transform_def homogeneous_def dot4_def Let_def)

lemma near_plane_depth:
  assumes "0 < near" and "near < far"
  shows "project (build fov aspect near far) (vector3df 0 0 near) = Some (vector3df 0 0 0)"
proof -
  have "far / (far - near) * near - near * far / (far - near) = 0"
    by (simp add: mult.commute)
  then show ?thesis
    using assms by (simp add: project_def clip_coordinates w_divide_def)
qed

lemma far_plane_depth:
  assumes "0 < near" and "near < far"
  shows "project (build fov aspect near far) (vector3df 0 0 far) = Some (vector3df 0 0 1)"
proof -
  have d: "far - near \<noteq> 0" and f: "far \<noteq> 0"
    using assms by auto
  have "far / (far - near) * far - near * far / (far - near) = far * ((far - near) / (far - near))"
    by (simp add: field_simps)
  also have "\<dots> = far"
    using d by simp
  finally have "(far / (far - near) * far - near * far / (far - near)) / far = 1"
    using f by simp
  then show ?thesis
    using f by (simp add: project_def clip_coordinates w_divide_def)
qed

text \<open>
  C3. For valid inputs the built matrix sends the camera-space point (0,0,near) to
  depth 0 and (0,0,far) to depth 1 after the W-divide; it is the left-handed
  perspective: clip-space x is x scaled by cot(fov/2)/aspect, clip-space y is y scaled
  by cot(fov/2), clip-space w is the camera-space z, and both scales are positive.
\<close>

theorem build_maps_near_to_0_far_to_1:
  assumes "valid_parameters fov aspect near far"
  shows "project (build fov aspect near far) (vector3df 0 0 near) = Some (vector3df 0 0 0)
    \<and> project (build fov aspect near far) (vector3df 0 0 far) = Some (vector3df 0 0 1)
    \<and> x4 (transform (build fov aspect near far) (homogeneous (vector3df x y z)))
        = cot (fov / 2) / aspect * x
    \<and> y4 (transform (build fov aspect near far) (homogeneous (vector3df x y z)))
        = cot (fov / 2) * y
    \<and> w4 (transform (build fov aspect near far) (homogeneous (vector3df x y z))) = z
    \<and> 0 < cot (fov / 2) \<and> 0 < cot (fov / 2) / aspect"
proof -
  from assms have fov: "0 < fov" "fov < pi" and aspect: "0 < aspect"
    and range: "0 < near" "near < far"
    by (simp_all add: valid_parameters_def)
  have h: "0 < cot (fov / 2)"
    using fov by (rule cot_half_fov_pos)
  with aspect have "0 < cot (fov / 2) / aspect"
    by simp
  with h show ?thesis
    using near_plane_depth [OF range] far_plane_depth [OF range]
    by (simp add: clip_coordinates)
qed

theorem build_maps_near_to_0_far_to_1_witness:
  "valid_parameters (pi / 2) 1 1 100
   \<and> project (build (pi / 2) 1 1 100) (vector3df 0 0 1) = Some (vector3df 0 0 0)
   \<and> project (build (pi / 2) 1 1 100) (vector3df 0 0 100) = Some (vector3df 0 0 1)"
proof -
  have v: "valid_parameters (pi / 2) 1 1 100"
    by (simp add: valid_parameters_def)
  show ?thesis
    using v build_maps_near_to_0_far_to_1 [OF v] by simp
qed

subsection \<open>Explicit and derived projection\<close>






end
